theory Spec2Isabelle
  imports Main
begin

section \<open>The Commander finite state machine (art\_nav/src/commander/FSM.cc)\<close>

text \<open>
  Once per cycle \<open>CmdrFSM::control\<close> copies the navigator state, asks
  \<open>current_event\<close> for the most urgent event, commits the next state of the cell
  (event, state) of the transition table and runs the cell's action, which returns the
  order for the cycle. The machine and the commander are passed explicitly and returned
  updated; an exception of the route container ends the cycle with \<open>Inl\<close>.
\<close>

subsection \<open>Data the state machine works on\<close>

text \<open>
  Modelled from the spec: \<open>ElementID\<close> is declared outside the sources at hand. It is
  an opaque, equality-comparable waypoint name with one reserved "none" value, the value
  the default constructor \<open>ElementID()\<close> yields. The conversion from the message type
  \<open>MapID\<close> of the navigator state is the identity on names.
\<close>

datatype ElementID = ElementID_none | ElementID_name nat

text \<open>Graph nodes and edges: only the members FSM.cc reads.\<close>

record WayPointNode =
  index :: int
  id' :: ElementID

record WayPointEdge =
  startnode_index :: int
  endnode_index :: int

record Graph =
  nodes :: "WayPointNode list"

text \<open>
  Modelled from the spec: \<open>Graph::get_node_by_index\<close> is not among the sources; it
  looks a node up by its index and answers not-found (\<open>NULL\<close>, here \<open>None\<close>) when the
  graph has no such node.
\<close>

definition get_node_by_index :: "Graph \<Rightarrow> int \<Rightarrow> WayPointNode option" where
  "get_node_by_index g i = find (\<lambda>n. index n = i) (nodes g)"

text \<open>The members of the \<open>NavigatorState\<close> message that FSM.cc reads or writes.\<close>

record NavigatorState =
  last_waypt :: ElementID
  replan_waypt :: ElementID
  road_blocked :: bool

datatype Behavior = Behavior_Abort | Behavior_Quit | Behavior_Initialize | Behavior_Go

text \<open>The \<open>Order\<close> message: FSM.cc sets and reads only its behavior.\<close>

record Order =
  behavior :: Behavior

datatype CmdrEvent =
    CmdrEvent_Blocked | CmdrEvent_Done | CmdrEvent_EnterLane | CmdrEvent_Fail
  | CmdrEvent_None | CmdrEvent_Wait | CmdrEvent_Replan

datatype CmdrState = CmdrState_Done | CmdrState_Init | CmdrState_Road

text \<open>
  The methods of the \<open>Commander\<close> object that FSM.cc invokes. The list \<open>calls\<close> of a
  commander is a ghost member: it records, in order, every such invocation.
\<close>

datatype cmdr_call =
    call_next_checkpoint | call_replan_route | call_prepare_order Behavior
  | call_add_block ElementID

record Commander =
  route :: "WayPointEdge list"
  graph :: Graph
  goal :: WayPointNode
  goal2 :: WayPointNode
  blockages :: "ElementID list"
  calls :: "cmdr_call list"

text \<open>
  The bodies of \<open>Commander::next_checkpoint\<close>, \<open>Commander::replan_route\<close> and
  \<open>Commander::prepare_order\<close> are not among the sources: they are parameters. Each
  takes the commander and returns its result with the commander it leaves behind; what
  a commander holds besides the members above is the extension \<open>'z\<close> of the record.
\<close>

record 'z CommanderOps =
  next_checkpoint_body :: "'z Commander_scheme \<Rightarrow> bool \<times> 'z Commander_scheme"
  replan_route_body :: "'z Commander_scheme \<Rightarrow> bool \<times> 'z Commander_scheme"
  prepare_order_body :: "Behavior \<Rightarrow> 'z Commander_scheme \<Rightarrow> 'z Commander_scheme"

definition next_checkpoint ::
  "'z CommanderOps \<Rightarrow> 'z Commander_scheme \<Rightarrow> bool \<times> 'z Commander_scheme" where
  "next_checkpoint ops c =
     (case next_checkpoint_body ops c of
        (more_points, c') \<Rightarrow> (more_points, c'\<lparr>calls := calls c @ [call_next_checkpoint]\<rparr>))"

definition replan_route ::
  "'z CommanderOps \<Rightarrow> 'z Commander_scheme \<Rightarrow> bool \<times> 'z Commander_scheme" where
  "replan_route ops c =
     (case replan_route_body ops c of
        (planned, c') \<Rightarrow> (planned, c'\<lparr>calls := calls c @ [call_replan_route]\<rparr>))"

text \<open>
  Modelled from the spec: \<open>Commander::prepare_order\<close> is not among the sources; the
  order it returns carries the behavior it is given ("returns a Go order"). What it
  does to the commander is the parameter \<open>prepare_order_body\<close>.
\<close>

definition prepare_order ::
  "'z CommanderOps \<Rightarrow> Behavior \<Rightarrow> 'z Commander_scheme \<Rightarrow> Order \<times> 'z Commander_scheme" where
  "prepare_order ops b c =
     (\<lparr>behavior = b\<rparr>,
      (prepare_order_body ops b c)\<lparr>calls := calls c @ [call_prepare_order b]\<rparr>)"

text \<open>
  Modelled from the spec: \<open>Blockages::add_block\<close> is not among the sources; it marks
  the waypoint as obstructed.
\<close>

definition add_block :: "ElementID \<Rightarrow> 'z Commander_scheme \<Rightarrow> 'z Commander_scheme" where
  "add_block w c = c\<lparr>blockages := blockages c @ [w], calls := calls c @ [call_add_block w]\<rparr>"

text \<open>
  What can go wrong inside the route container: \<open>at(0)\<close> on an empty route throws
  \<open>std::out_of_range\<close>; \<open>pop_front()\<close> on an empty route is undefined.
\<close>

datatype exn = out_of_range | pop_front_on_empty

definition at :: "'z Commander_scheme \<Rightarrow> nat \<Rightarrow> exn + WayPointEdge" where
  "at c n = (if n < length (route c) then Inr (route c ! n) else Inl out_of_range)"

subsection \<open>The state machine's own members\<close>

text \<open>
  \<open>verbose\<close> only switches logging, \<open>cmdr\<close> is the commander passed along explicitly,
  \<open>was_in_route_network\<close> is never read or written, and \<open>ttable\<close> is the constant
  table below, filled by the constructor.
\<close>

record CmdrFSM =
  current_way :: ElementID
  navstate :: NavigatorState
  prev :: CmdrState
  state :: CmdrState
  old_replan :: ElementID

text \<open>A pointer to an action method is a tag; \<open>run_action\<close> below calls through it.\<close>

datatype action_t =
    PtrActionError | PtrActionFail | PtrActionWait
  | PtrActionInDone | PtrActionInInit | PtrActionInRoad
  | PtrActionToDone | PtrActionToRoad
  | PtrBlockedInRoad | PtrReplanInRoad | PtrInitToRoad

record transtion_t =
  "next" :: CmdrState
  action :: action_t

type_synonym ttable_t = "CmdrEvent \<Rightarrow> CmdrState \<Rightarrow> transtion_t"

subsection \<open>The transition table\<close>

text \<open>The constructor's first loop: every cell is \<open>ActionError\<close>, staying put.\<close>

definition ttable_init :: ttable_t where
  "ttable_init event st = \<lparr>next = st, action = PtrActionError\<rparr>"

definition Add ::
  "CmdrEvent \<Rightarrow> action_t \<Rightarrow> CmdrState \<Rightarrow> CmdrState \<Rightarrow> ttable_t \<Rightarrow> ttable_t" where
  "Add event act from_state to_state tt =
     tt(event := (tt event)(from_state := \<lparr>next = to_state, action = act\<rparr>))"

definition ttable :: ttable_t where
  "ttable =
    (Add CmdrEvent_Replan PtrReplanInRoad CmdrState_Road CmdrState_Road
    (Add CmdrEvent_Replan PtrActionInInit CmdrState_Init CmdrState_Init
    (Add CmdrEvent_Replan PtrActionInDone CmdrState_Done CmdrState_Done
    (Add CmdrEvent_Wait PtrActionWait CmdrState_Road CmdrState_Road
    (Add CmdrEvent_Wait PtrActionInInit CmdrState_Init CmdrState_Init
    (Add CmdrEvent_Wait PtrActionInDone CmdrState_Done CmdrState_Done
    (Add CmdrEvent_None PtrActionInRoad CmdrState_Road CmdrState_Road
    (Add CmdrEvent_None PtrActionInInit CmdrState_Init CmdrState_Init
    (Add CmdrEvent_None PtrActionInDone CmdrState_Done CmdrState_Done
    (Add CmdrEvent_Fail PtrActionFail CmdrState_Road CmdrState_Done
    (Add CmdrEvent_Fail PtrActionFail CmdrState_Init CmdrState_Done
    (Add CmdrEvent_Fail PtrActionInDone CmdrState_Done CmdrState_Done
    (Add CmdrEvent_EnterLane PtrActionInRoad CmdrState_Road CmdrState_Road
    (Add CmdrEvent_EnterLane PtrInitToRoad CmdrState_Init CmdrState_Road
    (Add CmdrEvent_EnterLane PtrActionInDone CmdrState_Done CmdrState_Done
    (Add CmdrEvent_Done PtrActionToDone CmdrState_Road CmdrState_Done
    (Add CmdrEvent_Done PtrActionToDone CmdrState_Init CmdrState_Done
    (Add CmdrEvent_Done PtrActionInDone CmdrState_Done CmdrState_Done
    (Add CmdrEvent_Blocked PtrBlockedInRoad CmdrState_Road CmdrState_Road
    (Add CmdrEvent_Blocked PtrActionInInit CmdrState_Init CmdrState_Init
    (Add CmdrEvent_Blocked PtrActionInDone CmdrState_Done CmdrState_Done
     ttable_init)))))))))))))))))))))"

subsection \<open>Action methods\<close>

type_synonym 'z action_result = "Order \<times> CmdrFSM \<times> 'z Commander_scheme"

definition ActionFail ::
  "CmdrEvent \<Rightarrow> CmdrFSM \<Rightarrow> 'z Commander_scheme \<Rightarrow> 'z action_result" where
  "ActionFail event f c = (\<lparr>behavior = Behavior_Abort\<rparr>, f, c)"

definition ActionError ::
  "CmdrEvent \<Rightarrow> CmdrFSM \<Rightarrow> 'z Commander_scheme \<Rightarrow> 'z action_result" where
  "ActionError event f c = ActionFail event f c"

definition ActionWait ::
  "'z CommanderOps \<Rightarrow> CmdrEvent \<Rightarrow> CmdrFSM \<Rightarrow> 'z Commander_scheme \<Rightarrow> 'z action_result" where
  "ActionWait ops event f c =
     (case prepare_order ops Behavior_Go c of (order, c') \<Rightarrow> (order, f, c'))"

definition ActionInDone ::
  "CmdrEvent \<Rightarrow> CmdrFSM \<Rightarrow> 'z Commander_scheme \<Rightarrow> 'z action_result" where
  "ActionInDone event f c = (\<lparr>behavior = Behavior_Quit\<rparr>, f, c)"

definition ActionInInit ::
  "CmdrEvent \<Rightarrow> CmdrFSM \<Rightarrow> 'z Commander_scheme \<Rightarrow> 'z action_result" where
  "ActionInInit event f c = (\<lparr>behavior = Behavior_Initialize\<rparr>, f, c)"

definition ActionInRoad ::
  "'z CommanderOps \<Rightarrow> CmdrEvent \<Rightarrow> CmdrFSM \<Rightarrow> 'z Commander_scheme \<Rightarrow> 'z action_result" where
  "ActionInRoad ops event f c =
     (case prepare_order ops Behavior_Go c of (order, c') \<Rightarrow> (order, f, c'))"

definition ActionToDone ::
  "CmdrEvent \<Rightarrow> CmdrFSM \<Rightarrow> 'z Commander_scheme \<Rightarrow> 'z action_result" where
  "ActionToDone event f c = ActionInDone event f c"

definition ActionToRoad ::
  "'z CommanderOps \<Rightarrow> CmdrEvent \<Rightarrow> CmdrFSM \<Rightarrow> 'z Commander_scheme \<Rightarrow> 'z action_result" where
  "ActionToRoad ops event f c = ActionInRoad ops event f c"

definition BlockedInRoad ::
  "'z CommanderOps \<Rightarrow> CmdrEvent \<Rightarrow> CmdrFSM \<Rightarrow> 'z Commander_scheme \<Rightarrow> 'z action_result" where
  "BlockedInRoad ops event f c =
     (let c1 = add_block (replan_waypt (navstate f)) c in
      case replan_route ops c1 of
        (planned, c2) \<Rightarrow>
          if planned = False then ActionWait ops event f c2
          else ActionInRoad ops event f c2)"

definition ReplanInRoad ::
  "'z CommanderOps \<Rightarrow> CmdrEvent \<Rightarrow> CmdrFSM \<Rightarrow> 'z Commander_scheme \<Rightarrow> 'z action_result" where
  "ReplanInRoad ops event f c =
     (let f1 = f\<lparr>navstate := (navstate f)\<lparr>last_waypt := replan_waypt (navstate f)\<rparr>\<rparr> in
      case replan_route ops c of
        (planned, c1) \<Rightarrow>
          if planned = False then ActionWait ops event f1 c1
          else ActionInRoad ops event f1 c1)"

definition InitToRoad ::
  "'z CommanderOps \<Rightarrow> CmdrEvent \<Rightarrow> CmdrFSM \<Rightarrow> 'z Commander_scheme \<Rightarrow> 'z action_result" where
  "InitToRoad ops event f c =
     (case replan_route ops c of
        (planned, c1) \<Rightarrow>
          if planned = False then ActionFail event f c1
          else ActionInRoad ops event f c1)"

text \<open>The call \<open>(this->*action)(event)\<close>.\<close>

fun run_action ::
  "action_t \<Rightarrow> 'z CommanderOps \<Rightarrow> CmdrEvent \<Rightarrow> CmdrFSM \<Rightarrow> 'z Commander_scheme
     \<Rightarrow> 'z action_result" where
  "run_action PtrActionError ops = ActionError"
| "run_action PtrActionFail ops = ActionFail"
| "run_action PtrActionWait ops = ActionWait ops"
| "run_action PtrActionInDone ops = ActionInDone"
| "run_action PtrActionInInit ops = ActionInInit"
| "run_action PtrActionInRoad ops = ActionInRoad ops"
| "run_action PtrActionToDone ops = ActionToDone"
| "run_action PtrActionToRoad ops = ActionToRoad ops"
| "run_action PtrBlockedInRoad ops = BlockedInRoad ops"
| "run_action PtrReplanInRoad ops = ReplanInRoad ops"
| "run_action PtrInitToRoad ops = InitToRoad ops"

subsection \<open>The most urgent current event\<close>

text \<open>
  How the block that walks the plan ends: it returns an event from \<open>current_event\<close>
  at once, or it falls through with the two goal flags.
\<close>

datatype 'c walk = Returned CmdrEvent CmdrFSM 'c | Walked bool bool CmdrFSM 'c

text \<open>
  The \<open>do ... while\<close> loop, entered at its body. Besides the machine and the
  commander it carries the locals \<open>new_goal1\<close> and \<open>new_goal2\<close>; it hands back the
  local \<open>first_edge\<close> with them.
\<close>

function do_while ::
  "CmdrFSM \<Rightarrow> 'z Commander_scheme \<Rightarrow> bool \<Rightarrow> bool
     \<Rightarrow> exn + (WayPointEdge \<times> bool \<times> bool \<times> CmdrFSM \<times> 'z Commander_scheme
              + CmdrEvent \<times> CmdrFSM \<times> 'z Commander_scheme)" where
  "do_while f c new_goal1 new_goal2 =
     (case route c of
        [] \<Rightarrow> Inl pop_front_on_empty
      | front # popped \<Rightarrow>
          (case at (c\<lparr>route := popped\<rparr>) 0 of
             Inl e \<Rightarrow> Inl e
           | Inr first_edge \<Rightarrow>
               (case get_node_by_index (graph c) (startnode_index first_edge) of
                  None \<Rightarrow> Inr (Inr (CmdrEvent_Fail, f, c\<lparr>route := popped\<rparr>))
                | Some current_node \<Rightarrow>
                    (let f1 = f\<lparr>current_way := id' current_node\<rparr>;
                         c1 = c\<lparr>route := popped\<rparr>;
                         g1 = (if current_way f1 = id' (goal c1) then True else new_goal1);
                         g2 = (if current_way f1 = id' (goal2 c1) then True else new_goal2)
                     in if last_waypt (navstate f1) \<noteq> current_way f1 \<and> length (route c1) > 1
                        then do_while f1 c1 g1 g2
                        else Inr (Inl (first_edge, g1, g2, f1, c1))))))"
  by pat_completeness auto
termination
  by (relation "measure (\<lambda>(f, c, g1, g2). length (route c))") auto

declare do_while.simps [simp del]

text \<open>
  "Walk through plan ticking off states until we see last\_waypt. Mark if we've passed
  any goals along the way."
\<close>

definition walk_through_plan ::
  "CmdrFSM \<Rightarrow> 'z Commander_scheme \<Rightarrow> exn + 'z Commander_scheme walk" where
  "walk_through_plan f c =
     (if last_waypt (navstate f) \<noteq> current_way f then
        (case do_while f c False False of
           Inl e \<Rightarrow> Inl e
         | Inr (Inr (event, f1, c1)) \<Rightarrow> Inr (Returned event f1 c1)
         | Inr (Inl (first_edge, g1, g2, f1, c1)) \<Rightarrow>
             if last_waypt (navstate f1) \<noteq> current_way f1 then
               (case get_node_by_index (graph c1) (endnode_index first_edge) of
                  None \<Rightarrow> Inr (Returned CmdrEvent_Fail f1 c1)
                | Some current_node \<Rightarrow>
                    (let f2 = f1\<lparr>current_way := id' current_node\<rparr> in
                     Inr (Walked
                            (if current_way f2 = id' (goal c1) then True else g1)
                            (if current_way f2 = id' (goal2 c1) then True else g2)
                            f2 c1)))
             else Inr (Walked g1 g2 f1 c1))
      else Inr (Walked False False f c))"

text \<open>"Find new goals if we've passed one recently."\<close>

definition find_new_goals ::
  "'z CommanderOps \<Rightarrow> bool \<Rightarrow> bool \<Rightarrow> 'z Commander_scheme \<Rightarrow> bool \<times> 'z Commander_scheme" where
  "find_new_goals ops new_goal1 new_goal2 c =
     (case (if new_goal1
            then (case next_checkpoint ops c of (more_points, c') \<Rightarrow> (\<not> more_points, c'))
            else (False, c)) of
        (finished, c1) \<Rightarrow>
          if new_goal1 \<and> new_goal2
          then (case next_checkpoint ops c1 of (more_points, c') \<Rightarrow> (\<not> more_points, c'))
          else (finished, c1))"

text \<open>"Process events in order of urgency. Use only the first, leaving the rest pending."\<close>

definition process_events ::
  "'z CommanderOps \<Rightarrow> bool \<Rightarrow> bool \<Rightarrow> CmdrFSM \<Rightarrow> 'z Commander_scheme
     \<Rightarrow> CmdrEvent \<times> CmdrFSM \<times> 'z Commander_scheme" where
  "process_events ops finished new_goal1 f c =
     (if finished then (CmdrEvent_Done, f, c)
      else if replan_waypt (navstate f) \<noteq> old_replan f then
        (let f1 = f\<lparr>old_replan := replan_waypt (navstate f)\<rparr> in
         if replan_waypt (navstate f1) \<noteq> ElementID_none then
           (if road_blocked (navstate f1) then (CmdrEvent_Blocked, f1, c)
            else (CmdrEvent_Replan, f1, c))
         else (CmdrEvent_None, f1, c))
      else if new_goal1 then
        (case replan_route ops c of
           (planned, c1) \<Rightarrow>
             if \<not> planned then (CmdrEvent_Wait, f, c1) else (CmdrEvent_None, f, c1))
      else (CmdrEvent_None, f, c))"

definition current_event ::
  "'z CommanderOps \<Rightarrow> CmdrFSM \<Rightarrow> 'z Commander_scheme
     \<Rightarrow> exn + CmdrEvent \<times> CmdrFSM \<times> 'z Commander_scheme" where
  "current_event ops f c =
     (if length (route c) = 0 then
        (let f1 = f\<lparr>current_way := last_waypt (navstate f)\<rparr>;
             c1 = (if current_way f1 = id' (goal c) then snd (next_checkpoint ops c) else c)
         in Inr (CmdrEvent_EnterLane, f1, c1))
      else
        (case walk_through_plan f c of
           Inl e \<Rightarrow> Inl e
         | Inr (Returned event f1 c1) \<Rightarrow> Inr (event, f1, c1)
         | Inr (Walked new_goal1 new_goal2 f1 c1) \<Rightarrow>
             (case find_new_goals ops new_goal1 new_goal2 c1 of
                (finished, c2) \<Rightarrow> Inr (process_events ops finished new_goal1 f1 c2))))"

subsection \<open>One control cycle\<close>

definition control ::
  "'z CommanderOps \<Rightarrow> CmdrFSM \<Rightarrow> 'z Commander_scheme \<Rightarrow> NavigatorState
     \<Rightarrow> exn + 'z action_result" where
  "control ops f c nav =
     (case current_event ops (f\<lparr>navstate := nav\<rparr>) c of
        Inl e \<Rightarrow> Inl e
      | Inr (event, f1, c1) \<Rightarrow>
          (let xp = ttable event (state f1);
               f2 = f1\<lparr>prev := state f1, state := next xp\<rparr>
           in Inr (run_action (action xp) ops event f2 c1)))"

subsection \<open>Small scenarios\<close>

text \<open>
  A network of three waypoints with indices 0, 1, 2 (named 10, 11, 12), a mission whose
  goal is waypoint 0 and whose next goal is waypoint 2, and a commander whose planner
  never finds a route and whose mission always has a further checkpoint.
\<close>

definition ops_replan_fails :: "unit CommanderOps" where
  "ops_replan_fails =
     \<lparr>next_checkpoint_body = (\<lambda>c. (True, c)),
      replan_route_body = (\<lambda>c. (False, c)),
      prepare_order_body = (\<lambda>b c. c)\<rparr>"

definition node_of :: "int \<Rightarrow> WayPointNode" where
  "node_of i = \<lparr>index = i, id' = ElementID_name (nat (10 + i))\<rparr>"

definition edge_of :: "int \<Rightarrow> int \<Rightarrow> WayPointEdge" where
  "edge_of i j = \<lparr>startnode_index = i, endnode_index = j\<rparr>"

definition graph_of_three :: Graph where
  "graph_of_three = \<lparr>nodes = [node_of 0, node_of 1, node_of 2]\<rparr>"

definition cmdr_with :: "WayPointEdge list \<Rightarrow> Commander" where
  "cmdr_with plan =
     \<lparr>route = plan, graph = graph_of_three, goal = node_of 0, goal2 = node_of 2,
      blockages = [], calls = []\<rparr>"

definition nav_of :: "nat \<Rightarrow> ElementID \<Rightarrow> bool \<Rightarrow> NavigatorState" where
  "nav_of w r b = \<lparr>last_waypt = ElementID_name w, replan_waypt = r, road_blocked = b\<rparr>"

definition fsm_with :: "CmdrState \<Rightarrow> ElementID \<Rightarrow> ElementID \<Rightarrow> CmdrFSM" where
  "fsm_with st w r =
     \<lparr>current_way = w, navstate = nav_of 0 ElementID_none False, prev = st, state = st,
      old_replan = r\<rparr>"

section \<open>Properties\<close>

lemmas scenario_defs =
  ops_replan_fails_def node_of_def edge_of_def graph_of_three_def cmdr_with_def nav_of_def
  fsm_with_def

lemmas cycle_defs =
  control_def current_event_def walk_through_plan_def find_new_goals_def process_events_def
  next_checkpoint_def replan_route_def prepare_order_def add_block_def at_def
  get_node_by_index_def

lemmas action_defs =
  ActionFail_def ActionError_def ActionWait_def ActionInDone_def ActionInInit_def
  ActionInRoad_def ActionToDone_def ActionToRoad_def BlockedInRoad_def ReplanInRoad_def
  InitToRoad_def

subsection \<open>Cells of the transition table\<close>

lemma ttable_Done:
  "ttable e CmdrState_Done = \<lparr>next = CmdrState_Done, action = PtrActionInDone\<rparr>"
  by (cases e) (simp_all add: ttable_def Add_def ttable_init_def)

lemma ttable_EnterLane_Init:
  "ttable CmdrEvent_EnterLane CmdrState_Init = \<lparr>next = CmdrState_Road, action = PtrInitToRoad\<rparr>"
  by (simp add: ttable_def Add_def ttable_init_def)

lemma ttable_EnterLane_Road:
  "ttable CmdrEvent_EnterLane CmdrState_Road = \<lparr>next = CmdrState_Road, action = PtrActionInRoad\<rparr>"
  by (simp add: ttable_def Add_def ttable_init_def)

lemma ttable_Blocked_Road:
  "ttable CmdrEvent_Blocked CmdrState_Road = \<lparr>next = CmdrState_Road, action = PtrBlockedInRoad\<rparr>"
  by (simp add: ttable_def Add_def ttable_init_def)

lemma ttable_Replan_Road:
  "ttable CmdrEvent_Replan CmdrState_Road = \<lparr>next = CmdrState_Road, action = PtrReplanInRoad\<rparr>"
  by (simp add: ttable_def Add_def ttable_init_def)

lemma ttable_Fail_Road:
  "ttable CmdrEvent_Fail CmdrState_Road = \<lparr>next = CmdrState_Done, action = PtrActionFail\<rparr>"
  by (simp add: ttable_def Add_def ttable_init_def)

lemma ttable_None:
  "ttable CmdrEvent_None st =
     \<lparr>next = st,
      action = (case st of CmdrState_Done \<Rightarrow> PtrActionInDone
                | CmdrState_Init \<Rightarrow> PtrActionInInit | CmdrState_Road \<Rightarrow> PtrActionInRoad)\<rparr>"
  by (cases st) (simp_all add: ttable_def Add_def ttable_init_def)

subsection \<open>What the walk through the plan leaves alone\<close>

lemma do_while_frame:
  "do_while f c g1 g2 = Inr r \<Longrightarrow>
     (case r of
        Inl (e, a, b, f', c') \<Rightarrow>
          state f' = state f \<and> old_replan f' = old_replan f \<and> navstate f' = navstate f
          \<and> prev f' = prev f \<and> calls c' = calls c
      | Inr (ev, f', c') \<Rightarrow>
          ev = CmdrEvent_Fail \<and> state f' = state f \<and> old_replan f' = old_replan f
          \<and> navstate f' = navstate f \<and> prev f' = prev f \<and> calls c' = calls c)"
proof (induction f c g1 g2 arbitrary: r rule: do_while.induct)
  case (1 f c g1 g2)
  show ?case
    using "1.prems"
    apply (subst (asm) do_while.simps)
    apply (auto split: list.splits sum.splits option.splits if_splits simp: Let_def
                dest!: "1.IH"[rotated -1])
    done
qed

lemma current_event_frame:
  assumes "current_event ops f c = Inr (ev, f', c')"
  shows "state f' = state f \<and> prev f' = prev f \<and> navstate f' = navstate f"
proof (cases "length (route c) = 0")
  case True
  with assms show ?thesis by (auto simp: current_event_def Let_def)
next
  case False
  show ?thesis
  proof (cases "last_waypt (navstate f) \<noteq> current_way f")
    case False
    with assms \<open>length (route c) \<noteq> 0\<close> show ?thesis
      by (auto simp: current_event_def walk_through_plan_def process_events_def Let_def
               split: prod.splits if_splits)
  next
    case True
    with assms \<open>length (route c) \<noteq> 0\<close> show ?thesis
      by (auto simp: current_event_def walk_through_plan_def process_events_def Let_def
               split: prod.splits if_splits sum.splits option.splits dest!: do_while_frame)
  qed
qed

lemma walk_through_plan_frame:
  assumes "walk_through_plan f c = Inr w"
  shows "case w of
           Returned ev f' c' \<Rightarrow>
             ev = CmdrEvent_Fail \<and> state f' = state f \<and> old_replan f' = old_replan f
             \<and> navstate f' = navstate f \<and> prev f' = prev f \<and> calls c' = calls c
         | Walked g1 g2 f' c' \<Rightarrow>
             state f' = state f \<and> old_replan f' = old_replan f
             \<and> navstate f' = navstate f \<and> prev f' = prev f \<and> calls c' = calls c"
proof (cases "last_waypt (navstate f) \<noteq> current_way f")
  case False
  with assms show ?thesis by (auto simp: walk_through_plan_def)
next
  case True
  with assms show ?thesis
    by (auto simp: walk_through_plan_def Let_def
             split: sum.splits prod.splits if_splits option.splits dest!: do_while_frame)
qed

lemma find_new_goals_calls:
  "calls (snd (find_new_goals ops g1 g2 c)) =
     calls c @ replicate (if g1 then if g2 then 2 else 1 else 0) call_next_checkpoint"
  by (simp add: find_new_goals_def next_checkpoint_def numeral_2_eq_2 split: prod.splits)

lemma run_action_frame:
  assumes "run_action a ops ev f c = (order, f', c')"
  shows "old_replan f' = old_replan f \<and> state f' = state f \<and> current_way f' = current_way f
         \<and> prev f' = prev f"
  using assms
  by (cases a) (auto simp: action_defs Let_def split: prod.splits if_splits)

lemma current_event_after_walk:
  assumes "length (route c) \<noteq> 0"
    and "walk_through_plan f c = Inr (Walked new_goal1 new_goal2 f1 c1)"
    and "find_new_goals ops new_goal1 new_goal2 c1 = (finished, c2)"
  shows "current_event ops f c = Inr (process_events ops finished new_goal1 f1 c2)"
  using assms by (simp add: current_event_def)

subsection \<open>Done is absorbing\<close>

text \<open>
  C1. Done is an absorbing state: whatever event \<open>current_event\<close> returns in a cycle
  that starts in state Done, the cell of the table is (Done, \<open>ActionInDone\<close>), the
  machine is in Done after the cycle and the order returned is Quit.
\<close>

theorem done_is_absorbing:
  assumes "state f = CmdrState_Done"
    and "current_event ops (f\<lparr>navstate := nav\<rparr>) c = Inr (event, f1, c1)"
  shows "control ops f c nav =
           Inr (\<lparr>behavior = Behavior_Quit\<rparr>,
                f1\<lparr>prev := CmdrState_Done, state := CmdrState_Done\<rparr>, c1)
         \<and> ttable event CmdrState_Done = \<lparr>next = CmdrState_Done, action = PtrActionInDone\<rparr>"
proof -
  from current_event_frame[OF assms(2)] assms(1) have "state f1 = CmdrState_Done" by simp
  then show ?thesis
    using assms(2) by (simp add: control_def ttable_Done ActionInDone_def)
qed

theorem done_is_absorbing_witness:
  "state (fsm_with CmdrState_Done ElementID_none ElementID_none) = CmdrState_Done
   \<and> current_event ops_replan_fails
        ((fsm_with CmdrState_Done ElementID_none ElementID_none)
           \<lparr>navstate := nav_of 10 ElementID_none False\<rparr>) (cmdr_with [])
       = Inr (CmdrEvent_EnterLane,
              (fsm_with CmdrState_Done ElementID_none ElementID_none)
                \<lparr>navstate := nav_of 10 ElementID_none False, current_way := ElementID_name 10\<rparr>,
              (cmdr_with [])\<lparr>calls := [call_next_checkpoint]\<rparr>)
   \<and> control ops_replan_fails (fsm_with CmdrState_Done ElementID_none ElementID_none)
        (cmdr_with []) (nav_of 10 ElementID_none False)
       = Inr (\<lparr>behavior = Behavior_Quit\<rparr>,
              (fsm_with CmdrState_Done ElementID_none ElementID_none)
                \<lparr>navstate := nav_of 10 ElementID_none False, current_way := ElementID_name 10\<rparr>,
              (cmdr_with [])\<lparr>calls := [call_next_checkpoint]\<rparr>)"
proof -
  have h1: "state (fsm_with CmdrState_Done ElementID_none ElementID_none) = CmdrState_Done"
    by (simp add: fsm_with_def)
  have h2: "current_event ops_replan_fails
        ((fsm_with CmdrState_Done ElementID_none ElementID_none)
           \<lparr>navstate := nav_of 10 ElementID_none False\<rparr>) (cmdr_with [])
       = Inr (CmdrEvent_EnterLane,
              (fsm_with CmdrState_Done ElementID_none ElementID_none)
                \<lparr>navstate := nav_of 10 ElementID_none False, current_way := ElementID_name 10\<rparr>,
              (cmdr_with [])\<lparr>calls := [call_next_checkpoint]\<rparr>)"
    by (simp add: current_event_def next_checkpoint_def scenario_defs)
  from done_is_absorbing[OF h1 h2] show ?thesis using h1 h2 by (simp add: fsm_with_def)
qed

subsection \<open>Advancing the checkpoints\<close>

text \<open>
  C3 (as amended). After the walk, \<open>next_checkpoint\<close> is invoked exactly twice when
  both \<open>new_goal1\<close> and \<open>new_goal2\<close> are set, exactly once when \<open>new_goal1\<close> is
  set and \<open>new_goal2\<close> is not, and not at all when \<open>new_goal1\<close> is not set, whether
  or not \<open>new_goal2\<close> is. \<open>finished\<close> is the negated answer of the last invocation,
  and false when there was none.
\<close>

theorem find_new_goals_advances:
  "find_new_goals ops new_goal1 new_goal2 c =
     (if new_goal1 then
        (if new_goal2
         then (case next_checkpoint ops (snd (next_checkpoint ops c)) of
                 (more_points, c') \<Rightarrow> (\<not> more_points, c'))
         else (case next_checkpoint ops c of (more_points, c') \<Rightarrow> (\<not> more_points, c')))
      else (False, c))
   \<and> calls (snd (find_new_goals ops new_goal1 new_goal2 c)) =
       calls c @ replicate (if new_goal1 then if new_goal2 then 2 else 1 else 0)
                   call_next_checkpoint"
  by (simp add: find_new_goals_calls) (simp add: find_new_goals_def split: prod.splits)

theorem find_new_goals_advances_witness:
  "find_new_goals ops_replan_fails True True (cmdr_with []) =
     (False, (cmdr_with [])\<lparr>calls := [call_next_checkpoint, call_next_checkpoint]\<rparr>)
   \<and> find_new_goals ops_replan_fails True False (cmdr_with []) =
     (False, (cmdr_with [])\<lparr>calls := [call_next_checkpoint]\<rparr>)"
  using find_new_goals_advances[of ops_replan_fails True True "cmdr_with []"]
        find_new_goals_advances[of ops_replan_fails True False "cmdr_with []"]
  by (simp add: next_checkpoint_def scenario_defs)

text \<open>
  The claim as stated fails when only \<open>new_goal2\<close> fires: the vehicle reports waypoint
  12, the end of the last edge of the plan and the mission's second goal, without having
  passed the first goal. The walk sets \<open>new_goal2\<close> alone and no checkpoint is advanced.
\<close>

theorem lookahead_goal_alone_counterexample:
  "walk_through_plan
      ((fsm_with CmdrState_Road (ElementID_name 10) ElementID_none)
         \<lparr>navstate := nav_of 12 ElementID_none False\<rparr>)
      (cmdr_with [edge_of 0 1, edge_of 1 2])
     = Inr (Walked False True
              ((fsm_with CmdrState_Road (ElementID_name 12) ElementID_none)
                 \<lparr>navstate := nav_of 12 ElementID_none False\<rparr>)
              (cmdr_with [edge_of 1 2]))
   \<and> find_new_goals ops_replan_fails False True (cmdr_with [edge_of 1 2])
     = (False, cmdr_with [edge_of 1 2])
   \<and> calls (cmdr_with [edge_of 1 2]) = []"
  by (simp add: cycle_defs scenario_defs do_while.simps)

subsection \<open>The table's row for EnterLane\<close>

text \<open>
  C5 (as amended). In the row for EnterLane, the cell for Init moves to Road through
  \<open>InitToRoad\<close>, the cell for Road stays in Road through \<open>ActionInRoad\<close>, and the
  cell for Done stays in Done through \<open>ActionInDone\<close>.
\<close>

theorem enter_lane_row:
  "ttable CmdrEvent_EnterLane CmdrState_Init = \<lparr>next = CmdrState_Road, action = PtrInitToRoad\<rparr>
   \<and> ttable CmdrEvent_EnterLane CmdrState_Road = \<lparr>next = CmdrState_Road, action = PtrActionInRoad\<rparr>
   \<and> ttable CmdrEvent_EnterLane CmdrState_Done = \<lparr>next = CmdrState_Done, action = PtrActionInDone\<rparr>
   \<and> run_action (action (ttable CmdrEvent_EnterLane CmdrState_Init)) ops = InitToRoad ops
   \<and> run_action (action (ttable CmdrEvent_EnterLane CmdrState_Road)) ops = ActionInRoad ops"
  by (simp add: ttable_EnterLane_Init ttable_EnterLane_Road ttable_Done)

text \<open>
  The row as the claim has it (Init stays in Init, Road runs \<open>InitToRoad\<close>) is not the
  row of the table.
\<close>

theorem enter_lane_row_counterexample:
  "next (ttable CmdrEvent_EnterLane CmdrState_Init) \<noteq> CmdrState_Init
   \<and> action (ttable CmdrEvent_EnterLane CmdrState_Init) \<noteq> PtrActionInInit
   \<and> action (ttable CmdrEvent_EnterLane CmdrState_Road) \<noteq> PtrInitToRoad"
  by (simp add: ttable_EnterLane_Init ttable_EnterLane_Road)

subsection \<open>The first plan fails\<close>

text \<open>
  C8 (as amended). When \<open>replan_route\<close> fails in \<open>InitToRoad\<close>, that is in a cycle
  that starts in Init with the event EnterLane, the order returned is Abort and the
  machine ends the cycle in state Road, the next state of that cell of the table; the
  action does not move it to Done.
\<close>

theorem initial_plan_failure:
  assumes "state f = CmdrState_Init"
    and "current_event ops (f\<lparr>navstate := nav\<rparr>) c = Inr (CmdrEvent_EnterLane, f1, c1)"
    and "fst (replan_route ops c1) = False"
  shows "control ops f c nav =
           Inr (\<lparr>behavior = Behavior_Abort\<rparr>,
                f1\<lparr>prev := CmdrState_Init, state := CmdrState_Road\<rparr>,
                snd (replan_route ops c1))"
proof -
  from current_event_frame[OF assms(2)] assms(1) have "state f1 = CmdrState_Init" by simp
  then show ?thesis
    using assms(2,3)
    by (cases "replan_route ops c1")
       (simp add: control_def ttable_EnterLane_Init InitToRoad_def ActionFail_def)
qed

text \<open>
  The claim as stated fails: with no plan, a planner that finds no route and a machine
  in Init, the cycle returns Abort and leaves the machine in Road, not in Done.
\<close>

theorem initial_plan_failure_counterexample:
  "control ops_replan_fails (fsm_with CmdrState_Init ElementID_none ElementID_none)
      (cmdr_with []) (nav_of 10 ElementID_none False)
     = Inr (\<lparr>behavior = Behavior_Abort\<rparr>,
            \<lparr>current_way = ElementID_name 10, navstate = nav_of 10 ElementID_none False,
             prev = CmdrState_Init, state = CmdrState_Road, old_replan = ElementID_none\<rparr>,
            (cmdr_with [])\<lparr>calls := [call_next_checkpoint, call_replan_route]\<rparr>)
   \<and> fst (replan_route ops_replan_fails
            ((cmdr_with [])\<lparr>calls := [call_next_checkpoint]\<rparr>)) = False"
  by (simp add: cycle_defs scenario_defs ttable_EnterLane_Init InitToRoad_def ActionFail_def)

theorem initial_plan_failure_witness:
  "state (fsm_with CmdrState_Init ElementID_none ElementID_none) = CmdrState_Init
   \<and> current_event ops_replan_fails
        ((fsm_with CmdrState_Init ElementID_none ElementID_none)
           \<lparr>navstate := nav_of 11 ElementID_none False\<rparr>) (cmdr_with [])
       = Inr (CmdrEvent_EnterLane,
              (fsm_with CmdrState_Init (ElementID_name 11) ElementID_none)
                \<lparr>navstate := nav_of 11 ElementID_none False\<rparr>,
              cmdr_with [])
   \<and> fst (replan_route ops_replan_fails (cmdr_with [])) = False
   \<and> control ops_replan_fails (fsm_with CmdrState_Init ElementID_none ElementID_none)
        (cmdr_with []) (nav_of 11 ElementID_none False)
       = Inr (\<lparr>behavior = Behavior_Abort\<rparr>,
              \<lparr>current_way = ElementID_name 11, navstate = nav_of 11 ElementID_none False,
               prev = CmdrState_Init, state = CmdrState_Road, old_replan = ElementID_none\<rparr>,
              (cmdr_with [])\<lparr>calls := [call_replan_route]\<rparr>)"
proof -
  have h1: "state (fsm_with CmdrState_Init ElementID_none ElementID_none) = CmdrState_Init"
    by (simp add: fsm_with_def)
  have h2: "current_event ops_replan_fails
        ((fsm_with CmdrState_Init ElementID_none ElementID_none)
           \<lparr>navstate := nav_of 11 ElementID_none False\<rparr>) (cmdr_with [])
       = Inr (CmdrEvent_EnterLane,
              (fsm_with CmdrState_Init (ElementID_name 11) ElementID_none)
                \<lparr>navstate := nav_of 11 ElementID_none False\<rparr>,
              cmdr_with [])"
    by (simp add: current_event_def next_checkpoint_def scenario_defs)
  have h3: "fst (replan_route ops_replan_fails (cmdr_with [])) = False"
    by (simp add: replan_route_def scenario_defs)
  from initial_plan_failure[OF h1 h2 h3] show ?thesis
    using h1 h2 h3 by (simp add: replan_route_def scenario_defs)
qed

subsection \<open>A blocked road comes before replanning at a goal\<close>

text \<open>
  C2 (as amended). In a cycle whose walk through the plan falls through and in which
  \<open>finished\<close> is false, if the replan-request waypoint of the snapshot differs from
  \<open>old_replan\<close>, is not the none value, and the road is reported blocked, then
  \<open>current_event\<close> returns Blocked, whatever \<open>new_goal1\<close> is and whatever the
  planner would answer, and in state Road the cycle runs \<open>BlockedInRoad\<close>.
\<close>

theorem blocked_has_priority:
  assumes "length (route c) \<noteq> 0"
    and "walk_through_plan (f\<lparr>navstate := nav\<rparr>) c = Inr (Walked new_goal1 new_goal2 f1 c1)"
    and "find_new_goals ops new_goal1 new_goal2 c1 = (False, c2)"
    and "replan_waypt nav \<noteq> old_replan f"
    and "replan_waypt nav \<noteq> ElementID_none"
    and "road_blocked nav"
  shows "current_event ops (f\<lparr>navstate := nav\<rparr>) c =
           Inr (CmdrEvent_Blocked, f1\<lparr>old_replan := replan_waypt nav\<rparr>, c2)
         \<and> (state f = CmdrState_Road \<longrightarrow>
              action (ttable CmdrEvent_Blocked (state f)) = PtrBlockedInRoad
              \<and> control ops f c nav =
                  Inr (BlockedInRoad ops CmdrEvent_Blocked
                         (f1\<lparr>old_replan := replan_waypt nav,
                             prev := CmdrState_Road, state := CmdrState_Road\<rparr>) c2))"
proof -
  from walk_through_plan_frame[OF assms(2)]
  have fr: "navstate f1 = nav" "old_replan f1 = old_replan f" "state f1 = state f"
    by simp_all
  have ev: "current_event ops (f\<lparr>navstate := nav\<rparr>) c =
           Inr (CmdrEvent_Blocked, f1\<lparr>old_replan := replan_waypt nav\<rparr>, c2)"
    using current_event_after_walk[OF assms(1,2,3)] assms(4,5,6) fr
    by (simp add: process_events_def)
  show ?thesis
    using ev fr by (simp add: control_def ttable_Blocked_Road)
qed

theorem blocked_has_priority_witness:
  "length (route (cmdr_with [edge_of 0 1])) \<noteq> 0
   \<and> walk_through_plan
        ((fsm_with CmdrState_Road (ElementID_name 10) ElementID_none)
           \<lparr>navstate := nav_of 10 (ElementID_name 11) True\<rparr>) (cmdr_with [edge_of 0 1])
       = Inr (Walked False False
               ((fsm_with CmdrState_Road (ElementID_name 10) ElementID_none)
                  \<lparr>navstate := nav_of 10 (ElementID_name 11) True\<rparr>) (cmdr_with [edge_of 0 1]))
   \<and> find_new_goals ops_replan_fails False False (cmdr_with [edge_of 0 1])
       = (False, cmdr_with [edge_of 0 1])
   \<and> replan_waypt (nav_of 10 (ElementID_name 11) True)
       \<noteq> old_replan (fsm_with CmdrState_Road (ElementID_name 10) ElementID_none)
   \<and> replan_waypt (nav_of 10 (ElementID_name 11) True) \<noteq> ElementID_none
   \<and> road_blocked (nav_of 10 (ElementID_name 11) True)
   \<and> current_event ops_replan_fails
        ((fsm_with CmdrState_Road (ElementID_name 10) ElementID_none)
           \<lparr>navstate := nav_of 10 (ElementID_name 11) True\<rparr>) (cmdr_with [edge_of 0 1])
       = Inr (CmdrEvent_Blocked,
              (fsm_with CmdrState_Road (ElementID_name 10) (ElementID_name 11))
                 \<lparr>navstate := nav_of 10 (ElementID_name 11) True\<rparr>,
              cmdr_with [edge_of 0 1])
   \<and> control ops_replan_fails (fsm_with CmdrState_Road (ElementID_name 10) ElementID_none)
        (cmdr_with [edge_of 0 1]) (nav_of 10 (ElementID_name 11) True)
       = Inr (BlockedInRoad ops_replan_fails CmdrEvent_Blocked
               ((fsm_with CmdrState_Road (ElementID_name 10) (ElementID_name 11))
                  \<lparr>navstate := nav_of 10 (ElementID_name 11) True\<rparr>)
               (cmdr_with [edge_of 0 1]))"
proof -
  let ?f = "fsm_with CmdrState_Road (ElementID_name 10) ElementID_none"
  let ?nav = "nav_of 10 (ElementID_name 11) True"
  let ?c = "cmdr_with [edge_of 0 1]"
  have h1: "length (route ?c) \<noteq> 0" by (simp add: scenario_defs)
  have h2: "walk_through_plan (?f\<lparr>navstate := ?nav\<rparr>) ?c
              = Inr (Walked False False (?f\<lparr>navstate := ?nav\<rparr>) ?c)"
    by (simp add: walk_through_plan_def scenario_defs)
  have h3: "find_new_goals ops_replan_fails False False ?c = (False, ?c)"
    by (simp add: find_new_goals_def)
  have h4: "replan_waypt ?nav \<noteq> old_replan ?f" by (simp add: scenario_defs)
  have h5: "replan_waypt ?nav \<noteq> ElementID_none" by (simp add: scenario_defs)
  have h6: "road_blocked ?nav" by (simp add: scenario_defs)
  have st: "state ?f = CmdrState_Road" by (simp add: scenario_defs)
  from blocked_has_priority[OF h1 h2 h3 h4 h5 h6] st show ?thesis
    using h1 h2 h3 h4 h5 h6 by (simp add: scenario_defs)
qed

text \<open>
  The claim as stated fails when the replan request is withdrawn: the replan-request
  waypoint changes from 11 to the none value while the road is reported blocked. The
  event is None and the cycle runs \<open>ActionInRoad\<close>, not \<open>BlockedInRoad\<close>.
\<close>

theorem blocked_has_priority_counterexample:
  "replan_waypt (nav_of 10 ElementID_none True)
       \<noteq> old_replan (fsm_with CmdrState_Road (ElementID_name 10) (ElementID_name 11))
   \<and> road_blocked (nav_of 10 ElementID_none True)
   \<and> walk_through_plan
        ((fsm_with CmdrState_Road (ElementID_name 10) (ElementID_name 11))
           \<lparr>navstate := nav_of 10 ElementID_none True\<rparr>) (cmdr_with [edge_of 0 1])
       = Inr (Walked False False
               ((fsm_with CmdrState_Road (ElementID_name 10) (ElementID_name 11))
                  \<lparr>navstate := nav_of 10 ElementID_none True\<rparr>) (cmdr_with [edge_of 0 1]))
   \<and> find_new_goals ops_replan_fails False False (cmdr_with [edge_of 0 1])
       = (False, cmdr_with [edge_of 0 1])
   \<and> current_event ops_replan_fails
        ((fsm_with CmdrState_Road (ElementID_name 10) (ElementID_name 11))
           \<lparr>navstate := nav_of 10 ElementID_none True\<rparr>) (cmdr_with [edge_of 0 1])
       = Inr (CmdrEvent_None,
              (fsm_with CmdrState_Road (ElementID_name 10) ElementID_none)
                 \<lparr>navstate := nav_of 10 ElementID_none True\<rparr>,
              cmdr_with [edge_of 0 1])
   \<and> control ops_replan_fails (fsm_with CmdrState_Road (ElementID_name 10) (ElementID_name 11))
        (cmdr_with [edge_of 0 1]) (nav_of 10 ElementID_none True)
       = Inr (ActionInRoad ops_replan_fails CmdrEvent_None
               ((fsm_with CmdrState_Road (ElementID_name 10) ElementID_none)
                  \<lparr>navstate := nav_of 10 ElementID_none True\<rparr>)
               (cmdr_with [edge_of 0 1]))"
  by (simp add: cycle_defs scenario_defs ttable_None)

subsection \<open>The replan request is remembered whatever the event\<close>

text \<open>
  C9. When the replan-request waypoint differs from \<open>old_replan\<close> at the priority
  resolution and \<open>finished\<close> is false, \<open>old_replan\<close> is the new value after
  \<open>current_event\<close> and after the whole cycle, whichever of Blocked, Replan and None
  results. If the new value is the none value, the event is None, and the commander
  methods invoked in the cycle are the checkpoint advances and, in state Road, one
  \<open>prepare_order(Go)\<close>: \<open>replan_route\<close> is not invoked, even if \<open>new_goal1\<close> is set.
\<close>

theorem old_replan_always_updated:
  assumes "length (route c) \<noteq> 0"
    and "walk_through_plan (f\<lparr>navstate := nav\<rparr>) c = Inr (Walked new_goal1 new_goal2 f1 c1)"
    and "find_new_goals ops new_goal1 new_goal2 c1 = (False, c2)"
    and "replan_waypt nav \<noteq> old_replan f"
  shows "\<exists>event order f' c'.
           current_event ops (f\<lparr>navstate := nav\<rparr>) c =
             Inr (event, f1\<lparr>old_replan := replan_waypt nav\<rparr>, c2)
           \<and> event \<in> {CmdrEvent_Blocked, CmdrEvent_Replan, CmdrEvent_None}
           \<and> control ops f c nav = Inr (order, f', c')
           \<and> old_replan f' = replan_waypt nav
           \<and> (replan_waypt nav = ElementID_none \<longrightarrow>
                event = CmdrEvent_None
                \<and> calls c' =
                    calls c
                    @ replicate (if new_goal1 then if new_goal2 then 2 else 1 else 0)
                        call_next_checkpoint
                    @ (if state f = CmdrState_Road then [call_prepare_order Behavior_Go]
                       else [])
                \<and> call_replan_route \<notin> set (drop (length (calls c)) (calls c')))"
proof -
  from walk_through_plan_frame[OF assms(2)]
  have fr: "navstate f1 = nav" "old_replan f1 = old_replan f" "state f1 = state f"
    "calls c1 = calls c"
    by simp_all
  from find_new_goals_calls[of ops new_goal1 new_goal2 c1] assms(3) fr
  have c2: "calls c2 = calls c
              @ replicate (if new_goal1 then if new_goal2 then 2 else 1 else 0)
                  call_next_checkpoint"
    by simp
  define event where
    "event = (if replan_waypt nav \<noteq> ElementID_none
              then (if road_blocked nav then CmdrEvent_Blocked else CmdrEvent_Replan)
              else CmdrEvent_None)"
  have ev: "current_event ops (f\<lparr>navstate := nav\<rparr>) c =
              Inr (event, f1\<lparr>old_replan := replan_waypt nav\<rparr>, c2)"
    using current_event_after_walk[OF assms(1,2,3)] assms(4) fr
    by (simp add: process_events_def event_def)
  have mem: "event \<in> {CmdrEvent_Blocked, CmdrEvent_Replan, CmdrEvent_None}"
    by (simp add: event_def)
  obtain order f' c' where
    ra: "run_action (action (ttable event (state f))) ops event
           (f1\<lparr>old_replan := replan_waypt nav, prev := state f,
               state := next (ttable event (state f))\<rparr>) c2 = (order, f', c')"
    by (metis prod_cases3)
  have ctl: "control ops f c nav = Inr (order, f', c')"
    using ev ra fr by (simp add: control_def)
  from run_action_frame[OF ra] have old: "old_replan f' = replan_waypt nav" by simp
  have sentinel: "event = CmdrEvent_None
       \<and> calls c' = calls c2
                    @ (if state f = CmdrState_Road then [call_prepare_order Behavior_Go]
                       else [])"
    if "replan_waypt nav = ElementID_none"
  proof -
    from that have e: "event = CmdrEvent_None" by (simp add: event_def)
    show ?thesis
      using ra e
      by (cases "state f")
         (auto simp: ttable_None ActionInDone_def ActionInInit_def ActionInRoad_def
                     prepare_order_def)
  qed
  have norep: "call_replan_route \<notin> set (drop (length (calls c)) (calls c'))"
    if "replan_waypt nav = ElementID_none"
    using sentinel[OF that] c2 by auto
  show ?thesis
    using ev mem ctl old sentinel norep c2 by auto
qed

theorem old_replan_always_updated_witness:
  "length (route (cmdr_with [edge_of 2 0, edge_of 0 1])) \<noteq> 0
   \<and> walk_through_plan
        ((fsm_with CmdrState_Road (ElementID_name 12) (ElementID_name 12))
           \<lparr>navstate := nav_of 10 ElementID_none True\<rparr>) (cmdr_with [edge_of 2 0, edge_of 0 1])
       = Inr (Walked True False
               ((fsm_with CmdrState_Road (ElementID_name 10) (ElementID_name 12))
                  \<lparr>navstate := nav_of 10 ElementID_none True\<rparr>) (cmdr_with [edge_of 0 1]))
   \<and> find_new_goals ops_replan_fails True False (cmdr_with [edge_of 0 1])
       = (False, (cmdr_with [edge_of 0 1])\<lparr>calls := [call_next_checkpoint]\<rparr>)
   \<and> replan_waypt (nav_of 10 ElementID_none True)
       \<noteq> old_replan (fsm_with CmdrState_Road (ElementID_name 12) (ElementID_name 12))
   \<and> replan_waypt (nav_of 10 ElementID_none True) = ElementID_none
   \<and> current_event ops_replan_fails
        ((fsm_with CmdrState_Road (ElementID_name 12) (ElementID_name 12))
           \<lparr>navstate := nav_of 10 ElementID_none True\<rparr>) (cmdr_with [edge_of 2 0, edge_of 0 1])
       = Inr (CmdrEvent_None,
              (fsm_with CmdrState_Road (ElementID_name 10) ElementID_none)
                  \<lparr>navstate := nav_of 10 ElementID_none True\<rparr>,
              (cmdr_with [edge_of 0 1])\<lparr>calls := [call_next_checkpoint]\<rparr>)
   \<and> control ops_replan_fails (fsm_with CmdrState_Road (ElementID_name 12) (ElementID_name 12))
        (cmdr_with [edge_of 2 0, edge_of 0 1]) (nav_of 10 ElementID_none True)
       = Inr (\<lparr>behavior = Behavior_Go\<rparr>,
              (fsm_with CmdrState_Road (ElementID_name 10) ElementID_none)
                  \<lparr>navstate := nav_of 10 ElementID_none True\<rparr>,
              (cmdr_with [edge_of 0 1])
                  \<lparr>calls := [call_next_checkpoint, call_prepare_order Behavior_Go]\<rparr>)"
proof -
  let ?f = "fsm_with CmdrState_Road (ElementID_name 12) (ElementID_name 12)"
  let ?nav = "nav_of 10 ElementID_none True"
  let ?c = "cmdr_with [edge_of 2 0, edge_of 0 1]"
  have h1: "length (route ?c) \<noteq> 0" by (simp add: scenario_defs)
  have h2: "walk_through_plan (?f\<lparr>navstate := ?nav\<rparr>) ?c
       = Inr (Walked True False
               ((fsm_with CmdrState_Road (ElementID_name 10) (ElementID_name 12))
                  \<lparr>navstate := ?nav\<rparr>) (cmdr_with [edge_of 0 1]))"
    by (simp add: cycle_defs scenario_defs do_while.simps)
  have h3: "find_new_goals ops_replan_fails True False (cmdr_with [edge_of 0 1])
       = (False, (cmdr_with [edge_of 0 1])\<lparr>calls := [call_next_checkpoint]\<rparr>)"
    by (simp add: find_new_goals_def next_checkpoint_def scenario_defs)
  have h4: "replan_waypt ?nav \<noteq> old_replan ?f" by (simp add: scenario_defs)
  have h5: "replan_waypt ?nav = ElementID_none" by (simp add: scenario_defs)
  from old_replan_always_updated[OF h1 h2 h3 h4]
  obtain event where
    ev: "current_event ops_replan_fails (?f\<lparr>navstate := ?nav\<rparr>) ?c =
           Inr (event, (fsm_with CmdrState_Road (ElementID_name 10) (ElementID_name 12))
                  \<lparr>navstate := ?nav, old_replan := replan_waypt ?nav\<rparr>,
                (cmdr_with [edge_of 0 1])\<lparr>calls := [call_next_checkpoint]\<rparr>)"
    and none: "event = CmdrEvent_None"
    using h5 by auto
  have run: "control ops_replan_fails ?f ?c ?nav
       = Inr (\<lparr>behavior = Behavior_Go\<rparr>,
              (fsm_with CmdrState_Road (ElementID_name 10) ElementID_none)
                  \<lparr>navstate := ?nav\<rparr>,
              (cmdr_with [edge_of 0 1])
                  \<lparr>calls := [call_next_checkpoint, call_prepare_order Behavior_Go]\<rparr>)"
    by (simp add: cycle_defs scenario_defs do_while.simps ttable_None ActionInRoad_def)
  from ev none have "current_event ops_replan_fails (?f\<lparr>navstate := ?nav\<rparr>) ?c =
           Inr (CmdrEvent_None,
                (fsm_with CmdrState_Road (ElementID_name 10) ElementID_none)
                  \<lparr>navstate := ?nav\<rparr>,
                (cmdr_with [edge_of 0 1])\<lparr>calls := [call_next_checkpoint]\<rparr>)"
    by (simp add: scenario_defs)
  with h1 h2 h3 h4 h5 run show ?thesis by simp
qed

subsection \<open>The first cycle\<close>

text \<open>
  C4. In a cycle that starts in state Init with an empty route (whether or not a
  checkpoint remains), \<open>current_event\<close> sets \<open>current_way\<close> to the last reported
  waypoint, invokes \<open>next_checkpoint\<close> exactly once if that waypoint is the mission's
  first goal and not at all otherwise, and returns EnterLane; the cycle ends in state
  Road.
\<close>

theorem first_cycle_enters_lane:
  assumes "state f = CmdrState_Init" and "length (route c) = 0"
  shows "\<exists>order f' c'.
           current_event ops (f\<lparr>navstate := nav\<rparr>) c =
             Inr (CmdrEvent_EnterLane,
                  f\<lparr>navstate := nav, current_way := last_waypt nav\<rparr>,
                  (if last_waypt nav = id' (goal c) then snd (next_checkpoint ops c) else c))
           \<and> control ops f c nav = Inr (order, f', c')
           \<and> current_way f' = last_waypt nav
           \<and> prev f' = CmdrState_Init \<and> state f' = CmdrState_Road
           \<and> (\<exists>later. calls c' =
                  calls c
                  @ (if last_waypt nav = id' (goal c) then [call_next_checkpoint] else [])
                  @ later \<and> call_next_checkpoint \<notin> set later)"
proof -
  define c1 where
    "c1 = (if last_waypt nav = id' (goal c) then snd (next_checkpoint ops c) else c)"
  define f1 where "f1 = f\<lparr>navstate := nav, current_way := last_waypt nav\<rparr>"
  have ev: "current_event ops (f\<lparr>navstate := nav\<rparr>) c = Inr (CmdrEvent_EnterLane, f1, c1)"
    using assms(2) by (simp add: current_event_def c1_def f1_def Let_def)
  have c1: "calls c1 =
      calls c @ (if last_waypt nav = id' (goal c) then [call_next_checkpoint] else [])"
    by (simp add: c1_def next_checkpoint_def split: prod.splits)
  obtain planned c2 where rp: "replan_route ops c1 = (planned, c2)" by (cases "replan_route ops c1")
  then have c2: "calls c2 = calls c1 @ [call_replan_route]"
    by (auto simp: replan_route_def split: prod.splits)
  let ?f2 = "f1\<lparr>prev := CmdrState_Init, state := CmdrState_Road\<rparr>"
  have ctl: "control ops f c nav =
        Inr (if planned then ActionInRoad ops CmdrEvent_EnterLane ?f2 c2
             else ActionFail CmdrEvent_EnterLane ?f2 c2)"
    using ev rp assms(1)
    by (simp add: control_def ttable_EnterLane_Init InitToRoad_def f1_def)
  show ?thesis
  proof (cases planned)
    case True
    with ctl have "control ops f c nav =
        Inr (\<lparr>behavior = Behavior_Go\<rparr>, ?f2,
             snd (prepare_order ops Behavior_Go c2))"
      by (simp add: ActionInRoad_def split: prod.splits) (simp add: prepare_order_def)
    moreover have "calls (snd (prepare_order ops Behavior_Go c2)) =
        calls c @ (if last_waypt nav = id' (goal c) then [call_next_checkpoint] else [])
        @ [call_replan_route, call_prepare_order Behavior_Go]"
      using c1 c2 by (simp add: prepare_order_def)
    ultimately show ?thesis
      using ev unfolding f1_def c1_def
      by (intro exI conjI) (assumption | simp)+
  next
    case False
    with ctl have "control ops f c nav = Inr (\<lparr>behavior = Behavior_Abort\<rparr>, ?f2, c2)"
      by (simp add: ActionFail_def)
    moreover have "calls c2 =
        calls c @ (if last_waypt nav = id' (goal c) then [call_next_checkpoint] else [])
        @ [call_replan_route]"
      using c1 c2 by simp
    ultimately show ?thesis
      using ev unfolding f1_def c1_def
      by (intro exI conjI) (assumption | simp)+
  qed
qed

theorem first_cycle_enters_lane_witness:
  "state (fsm_with CmdrState_Init ElementID_none ElementID_none) = CmdrState_Init
   \<and> length (route (cmdr_with [])) = 0
   \<and> current_event ops_replan_fails
        ((fsm_with CmdrState_Init ElementID_none ElementID_none)
           \<lparr>navstate := nav_of 10 ElementID_none False\<rparr>) (cmdr_with [])
       = Inr (CmdrEvent_EnterLane,
              (fsm_with CmdrState_Init (ElementID_name 10) ElementID_none)
                \<lparr>navstate := nav_of 10 ElementID_none False\<rparr>,
              (cmdr_with [])\<lparr>calls := [call_next_checkpoint]\<rparr>)
   \<and> map_sum id (\<lambda>(order, f', c'). (state f', current_way f'))
        (control ops_replan_fails (fsm_with CmdrState_Init ElementID_none ElementID_none)
           (cmdr_with []) (nav_of 10 ElementID_none False))
       = Inr (CmdrState_Road, ElementID_name 10)"
proof -
  let ?f = "fsm_with CmdrState_Init ElementID_none ElementID_none"
  let ?nav = "nav_of 10 ElementID_none False"
  have h1: "state ?f = CmdrState_Init" by (simp add: scenario_defs)
  have h2: "length (route (cmdr_with [])) = 0" by (simp add: scenario_defs)
  have nv: "last_waypt ?nav = ElementID_name 10" "id' (goal (cmdr_with [])) = ElementID_name 10"
    by (simp_all add: scenario_defs)
  have nc: "snd (next_checkpoint ops_replan_fails (cmdr_with []))
              = (cmdr_with [])\<lparr>calls := [call_next_checkpoint]\<rparr>"
    by (simp add: next_checkpoint_def scenario_defs)
  from first_cycle_enters_lane[OF h1 h2, of ops_replan_fails ?nav]
  obtain order f' c' where
    ev: "current_event ops_replan_fails (?f\<lparr>navstate := ?nav\<rparr>) (cmdr_with []) =
             Inr (CmdrEvent_EnterLane,
                  ?f\<lparr>navstate := ?nav, current_way := last_waypt ?nav\<rparr>,
                  (if last_waypt ?nav = id' (goal (cmdr_with []))
                   then snd (next_checkpoint ops_replan_fails (cmdr_with [])) else cmdr_with []))"
    and ctl: "control ops_replan_fails ?f (cmdr_with []) ?nav = Inr (order, f', c')"
    and res: "current_way f' = last_waypt ?nav" "state f' = CmdrState_Road"
    by blast
  from ev nv nc have "current_event ops_replan_fails (?f\<lparr>navstate := ?nav\<rparr>) (cmdr_with [])
       = Inr (CmdrEvent_EnterLane,
              (fsm_with CmdrState_Init (ElementID_name 10) ElementID_none)
                \<lparr>navstate := ?nav\<rparr>,
              (cmdr_with [])\<lparr>calls := [call_next_checkpoint]\<rparr>)"
    by (simp add: fsm_with_def)
  with h1 h2 ctl res nv show ?thesis by simp
qed

subsection \<open>Replanning fails on the road\<close>

text \<open>
  C6. In a cycle in state Road whose event is Blocked or Replan, so that
  \<open>BlockedInRoad\<close> or \<open>ReplanInRoad\<close> runs, if \<open>replan_route\<close> returns false then
  the order returned is the Go order of \<open>ActionWait\<close>, prepared after that one failed
  attempt without another, and the machine is in state Road at the end of the cycle.
\<close>

theorem replan_failure_on_the_road:
  assumes "state f = CmdrState_Road"
    and "current_event ops (f\<lparr>navstate := nav\<rparr>) c = Inr (event, f1, c1)"
    and "event = CmdrEvent_Blocked \<or> event = CmdrEvent_Replan"
    and "fst (replan_route ops
               (if event = CmdrEvent_Blocked then add_block (replan_waypt nav) c1 else c1))
         = False"
  shows "\<exists>fw cw.
           control ops f c nav = Inr (ActionWait ops event fw cw)
           \<and> ActionWait ops event fw cw =
               (\<lparr>behavior = Behavior_Go\<rparr>, fw, snd (prepare_order ops Behavior_Go cw))
           \<and> state fw = CmdrState_Road
           \<and> cw = snd (replan_route ops
                        (if event = CmdrEvent_Blocked then add_block (replan_waypt nav) c1
                         else c1))
           \<and> calls (snd (prepare_order ops Behavior_Go cw)) =
               calls c1
               @ (if event = CmdrEvent_Blocked then [call_add_block (replan_waypt nav)] else [])
               @ [call_replan_route, call_prepare_order Behavior_Go]"
proof -
  from current_event_frame[OF assms(2)] assms(1)
  have fr: "state f1 = CmdrState_Road" "navstate f1 = nav" by simp_all
  have aw: "ActionWait ops event fw cw =
              (\<lparr>behavior = Behavior_Go\<rparr>, fw, snd (prepare_order ops Behavior_Go cw))"
    for fw cw
    by (simp add: ActionWait_def prepare_order_def)
  from assms(3) show ?thesis
  proof
    assume e: "event = CmdrEvent_Blocked"
    let ?cb = "add_block (replan_waypt nav) c1"
    obtain c2 where rp: "replan_route ops ?cb = (False, c2)"
      using assms(4) e by (cases "replan_route ops ?cb") simp
    let ?fw = "f1\<lparr>prev := CmdrState_Road, state := CmdrState_Road\<rparr>"
    have "control ops f c nav = Inr (ActionWait ops event ?fw c2)"
      using assms(2) e fr rp
      by (simp add: control_def ttable_Blocked_Road BlockedInRoad_def)
    moreover have "calls (snd (prepare_order ops Behavior_Go c2)) =
               calls c1 @ [call_add_block (replan_waypt nav)]
               @ [call_replan_route, call_prepare_order Behavior_Go]"
      using rp by (auto simp: prepare_order_def replan_route_def add_block_def split: prod.splits)
    ultimately show ?thesis
      using e rp aw by (intro exI[of _ ?fw] exI[of _ c2]) simp
  next
    assume e: "event = CmdrEvent_Replan"
    obtain c2 where rp: "replan_route ops c1 = (False, c2)"
      using assms(4) e by (cases "replan_route ops c1") simp
    let ?fw = "f1\<lparr>prev := CmdrState_Road, state := CmdrState_Road,
                   navstate := nav\<lparr>last_waypt := replan_waypt nav\<rparr>\<rparr>"
    have "control ops f c nav = Inr (ActionWait ops event ?fw c2)"
      using assms(2) e fr rp
      by (simp add: control_def ttable_Replan_Road ReplanInRoad_def)
    moreover have "calls (snd (prepare_order ops Behavior_Go c2)) =
               calls c1 @ [call_replan_route, call_prepare_order Behavior_Go]"
      using rp by (auto simp: prepare_order_def replan_route_def split: prod.splits)
    ultimately show ?thesis
      using e rp aw by (intro exI[of _ ?fw] exI[of _ c2]) simp
  qed
qed

theorem replan_failure_on_the_road_witness:
  "state (fsm_with CmdrState_Road (ElementID_name 10) ElementID_none) = CmdrState_Road
   \<and> current_event ops_replan_fails
        ((fsm_with CmdrState_Road (ElementID_name 10) ElementID_none)
           \<lparr>navstate := nav_of 10 (ElementID_name 11) True\<rparr>) (cmdr_with [edge_of 0 1])
       = Inr (CmdrEvent_Blocked,
              (fsm_with CmdrState_Road (ElementID_name 10) (ElementID_name 11))
                 \<lparr>navstate := nav_of 10 (ElementID_name 11) True\<rparr>,
              cmdr_with [edge_of 0 1])
   \<and> fst (replan_route ops_replan_fails
            (add_block (replan_waypt (nav_of 10 (ElementID_name 11) True))
               (cmdr_with [edge_of 0 1]))) = False
   \<and> control ops_replan_fails (fsm_with CmdrState_Road (ElementID_name 10) ElementID_none)
        (cmdr_with [edge_of 0 1]) (nav_of 10 (ElementID_name 11) True)
       = Inr (\<lparr>behavior = Behavior_Go\<rparr>,
              (fsm_with CmdrState_Road (ElementID_name 10) (ElementID_name 11))
                 \<lparr>navstate := nav_of 10 (ElementID_name 11) True\<rparr>,
              (cmdr_with [edge_of 0 1])
                 \<lparr>blockages := [ElementID_name 11],
                  calls := [call_add_block (ElementID_name 11), call_replan_route,
                            call_prepare_order Behavior_Go]\<rparr>)"
proof -
  let ?f = "fsm_with CmdrState_Road (ElementID_name 10) ElementID_none"
  let ?nav = "nav_of 10 (ElementID_name 11) True"
  let ?c = "cmdr_with [edge_of 0 1]"
  let ?f1 = "(fsm_with CmdrState_Road (ElementID_name 10) (ElementID_name 11))\<lparr>navstate := ?nav\<rparr>"
  have h1: "state ?f = CmdrState_Road" by (simp add: scenario_defs)
  have h2: "current_event ops_replan_fails (?f\<lparr>navstate := ?nav\<rparr>) ?c
              = Inr (CmdrEvent_Blocked, ?f1, ?c)"
    by (simp add: cycle_defs scenario_defs)
  have h3: "CmdrEvent_Blocked = CmdrEvent_Blocked \<or> CmdrEvent_Blocked = CmdrEvent_Replan"
    by simp
  have h4: "fst (replan_route ops_replan_fails
               (if CmdrEvent_Blocked = CmdrEvent_Blocked
                then add_block (replan_waypt ?nav) ?c else ?c)) = False"
    by (simp add: replan_route_def scenario_defs)
  from replan_failure_on_the_road[OF h1 h2 h3 h4]
  obtain fw cw where
    ctl: "control ops_replan_fails ?f ?c ?nav = Inr (ActionWait ops_replan_fails CmdrEvent_Blocked fw cw)"
    and aw: "ActionWait ops_replan_fails CmdrEvent_Blocked fw cw =
               (\<lparr>behavior = Behavior_Go\<rparr>, fw, snd (prepare_order ops_replan_fails Behavior_Go cw))"
    by blast
  have "control ops_replan_fails ?f ?c ?nav
       = Inr (\<lparr>behavior = Behavior_Go\<rparr>, ?f1,
              ?c\<lparr>blockages := [ElementID_name 11],
                  calls := [call_add_block (ElementID_name 11), call_replan_route,
                            call_prepare_order Behavior_Go]\<rparr>)"
    using h2
    by (simp add: control_def ttable_Blocked_Road BlockedInRoad_def ActionWait_def
                  replan_route_def prepare_order_def add_block_def scenario_defs)
  with h1 h2 h4 ctl aw show ?thesis by simp
qed

subsection \<open>A waypoint of the plan is missing from the graph\<close>

lemma do_while_start_miss:
  assumes "route c = front # pre @ missing # post"
    and "\<forall>e\<in>set pre. \<exists>n. get_node_by_index (graph c) (startnode_index e) = Some n
                          \<and> id' n \<noteq> last_waypt (navstate f)"
    and "get_node_by_index (graph c) (startnode_index missing) = None"
  shows "\<exists>f1 c1. do_while f c g1 g2 = Inr (Inr (CmdrEvent_Fail, f1, c1))"
  using assms
proof (induction pre arbitrary: f c front g1 g2)
  case Nil
  then show ?case by (subst do_while.simps) (simp add: at_def)
next
  case (Cons e pre)
  from Cons.prems(2) obtain n where
    n: "get_node_by_index (graph c) (startnode_index e) = Some n"
       "id' n \<noteq> last_waypt (navstate f)"
    by auto
  let ?c1 = "c\<lparr>route := e # pre @ missing # post\<rparr>"
  let ?f1 = "f\<lparr>current_way := id' n\<rparr>"
  have step: "do_while f c g1 g2 =
      do_while ?f1 ?c1 (if id' n = id' (goal c) then True else g1)
                       (if id' n = id' (goal2 c) then True else g2)"
    using Cons.prems(1) n by (subst do_while.simps) (simp add: at_def Let_def)
  have "\<exists>f1 c1. do_while ?f1 ?c1 (if id' n = id' (goal c) then True else g1)
                       (if id' n = id' (goal2 c) then True else g2)
                  = Inr (Inr (CmdrEvent_Fail, f1, c1))"
    using Cons.prems by (intro Cons.IH[of ?c1 e ?f1]) simp_all
  with step show ?case by simp
qed

lemma do_while_end_reached:
  assumes "route c = front # pre @ [lst]"
    and "\<forall>e\<in>set (pre @ [lst]). \<exists>n. get_node_by_index (graph c) (startnode_index e) = Some n
                          \<and> id' n \<noteq> last_waypt (navstate f)"
  shows "\<exists>a b f1. do_while f c g1 g2 = Inr (Inl (lst, a, b, f1, c\<lparr>route := [lst]\<rparr>))
                   \<and> last_waypt (navstate f1) \<noteq> current_way f1"
  using assms
proof (induction pre arbitrary: f c front g1 g2)
  case Nil
  then show ?case by (subst do_while.simps) (auto simp: at_def Let_def)
next
  case (Cons e pre)
  from Cons.prems(2) obtain n where
    n: "get_node_by_index (graph c) (startnode_index e) = Some n"
       "id' n \<noteq> last_waypt (navstate f)"
    by auto
  let ?c1 = "c\<lparr>route := e # pre @ [lst]\<rparr>"
  let ?f1 = "f\<lparr>current_way := id' n\<rparr>"
  have step: "do_while f c g1 g2 =
      do_while ?f1 ?c1 (if id' n = id' (goal c) then True else g1)
                       (if id' n = id' (goal2 c) then True else g2)"
    using Cons.prems(1) n by (subst do_while.simps) (simp add: at_def Let_def)
  have "\<exists>a b f1. do_while ?f1 ?c1 (if id' n = id' (goal c) then True else g1)
                       (if id' n = id' (goal2 c) then True else g2)
                  = Inr (Inl (lst, a, b, f1, ?c1\<lparr>route := [lst]\<rparr>))
                   \<and> last_waypt (navstate f1) \<noteq> current_way f1"
    using Cons.prems by (intro Cons.IH[of ?c1 e ?f1]) simp_all
  with step show ?case by simp
qed

text \<open>
  C7. The walk looks up the start nodes of the edges behind the front edge, one after
  the other for as long as they are found, are not the reported waypoint and are not
  the start of the last edge; if the last edge's start is found and is not the reported
  waypoint either, it looks up that edge's end node. In a cycle in state Road in which
  one of these lookups finds no node, \<open>current_event\<close> returns Fail, and the cycle
  moves the machine to Done and returns an Abort order.
\<close>

theorem graph_lookup_failure_is_fatal:
  assumes "state f = CmdrState_Road"
    and "last_waypt nav \<noteq> current_way f"
    and "route c = front # pre @ missing # post"
    and "\<forall>e\<in>set pre. \<exists>n. get_node_by_index (graph c) (startnode_index e) = Some n
                          \<and> id' n \<noteq> last_waypt nav"
    and "get_node_by_index (graph c) (startnode_index missing) = None
         \<or> (post = []
            \<and> (\<exists>n. get_node_by_index (graph c) (startnode_index missing) = Some n
                    \<and> id' n \<noteq> last_waypt nav)
            \<and> get_node_by_index (graph c) (endnode_index missing) = None)"
  shows "\<exists>f1 c1.
           current_event ops (f\<lparr>navstate := nav\<rparr>) c = Inr (CmdrEvent_Fail, f1, c1)
           \<and> control ops f c nav =
               Inr (\<lparr>behavior = Behavior_Abort\<rparr>,
                    f1\<lparr>prev := CmdrState_Road, state := CmdrState_Done\<rparr>, c1)"
proof -
  let ?f = "f\<lparr>navstate := nav\<rparr>"
  have walk: "\<exists>f1 c1. walk_through_plan ?f c = Inr (Returned CmdrEvent_Fail f1 c1)"
    using assms(5)
  proof
    assume miss: "get_node_by_index (graph c) (startnode_index missing) = None"
    from do_while_start_miss[of c front pre missing post ?f False False] assms(3,4) miss
    obtain f1 c1 where "do_while ?f c False False = Inr (Inr (CmdrEvent_Fail, f1, c1))"
      by auto
    then show ?thesis using assms(2) by (simp add: walk_through_plan_def)
  next
    assume last: "post = []
            \<and> (\<exists>n. get_node_by_index (graph c) (startnode_index missing) = Some n
                    \<and> id' n \<noteq> last_waypt nav)
            \<and> get_node_by_index (graph c) (endnode_index missing) = None"
    from do_while_end_reached[of c front pre missing ?f False False] assms(3,4) last
    obtain a b f1 where
      "do_while ?f c False False = Inr (Inl (missing, a, b, f1, c\<lparr>route := [missing]\<rparr>))"
      "last_waypt (navstate f1) \<noteq> current_way f1"
      by auto
    then show ?thesis using assms(2) last by (simp add: walk_through_plan_def)
  qed
  then obtain f1 c1 where w: "walk_through_plan ?f c = Inr (Returned CmdrEvent_Fail f1 c1)"
    by blast
  from walk_through_plan_frame[OF w] assms(1) have st: "state f1 = CmdrState_Road" by simp
  have ev: "current_event ops ?f c = Inr (CmdrEvent_Fail, f1, c1)"
    using w assms(3) by (simp add: current_event_def)
  then have "control ops f c nav =
               Inr (\<lparr>behavior = Behavior_Abort\<rparr>,
                    f1\<lparr>prev := CmdrState_Road, state := CmdrState_Done\<rparr>, c1)"
    using st by (simp add: control_def ttable_Fail_Road ActionFail_def)
  with ev show ?thesis by blast
qed

theorem graph_lookup_failure_is_fatal_witness:
  "state (fsm_with CmdrState_Road (ElementID_name 10) ElementID_none) = CmdrState_Road
   \<and> last_waypt (nav_of 12 ElementID_none False)
        \<noteq> current_way (fsm_with CmdrState_Road (ElementID_name 10) ElementID_none)
   \<and> route (cmdr_with [edge_of 0 1, edge_of 1 2, edge_of 9 2])
        = edge_of 0 1 # [edge_of 1 2] @ edge_of 9 2 # []
   \<and> get_node_by_index (graph (cmdr_with [edge_of 0 1, edge_of 1 2, edge_of 9 2]))
        (startnode_index (edge_of 1 2)) = Some (node_of 1)
   \<and> id' (node_of 1) \<noteq> last_waypt (nav_of 12 ElementID_none False)
   \<and> get_node_by_index (graph (cmdr_with [edge_of 0 1, edge_of 1 2, edge_of 9 2]))
        (startnode_index (edge_of 9 2)) = None
   \<and> current_event ops_replan_fails
        ((fsm_with CmdrState_Road (ElementID_name 10) ElementID_none)
           \<lparr>navstate := nav_of 12 ElementID_none False\<rparr>)
        (cmdr_with [edge_of 0 1, edge_of 1 2, edge_of 9 2])
       = Inr (CmdrEvent_Fail,
              (fsm_with CmdrState_Road (ElementID_name 11) ElementID_none)
                 \<lparr>navstate := nav_of 12 ElementID_none False\<rparr>,
              cmdr_with [edge_of 9 2])
   \<and> control ops_replan_fails (fsm_with CmdrState_Road (ElementID_name 10) ElementID_none)
        (cmdr_with [edge_of 0 1, edge_of 1 2, edge_of 9 2]) (nav_of 12 ElementID_none False)
       = Inr (\<lparr>behavior = Behavior_Abort\<rparr>,
              (fsm_with CmdrState_Road (ElementID_name 11) ElementID_none)
                 \<lparr>navstate := nav_of 12 ElementID_none False,
                  prev := CmdrState_Road, state := CmdrState_Done\<rparr>,
              cmdr_with [edge_of 9 2])
   \<and> control ops_replan_fails (fsm_with CmdrState_Road (ElementID_name 10) ElementID_none)
        (cmdr_with [edge_of 0 1, edge_of 1 2, edge_of 2 9]) (nav_of 19 ElementID_none False)
       = Inr (\<lparr>behavior = Behavior_Abort\<rparr>,
              (fsm_with CmdrState_Road (ElementID_name 12) ElementID_none)
                 \<lparr>navstate := nav_of 19 ElementID_none False,
                  prev := CmdrState_Road, state := CmdrState_Done\<rparr>,
              cmdr_with [edge_of 2 9])"
proof -
  let ?f = "fsm_with CmdrState_Road (ElementID_name 10) ElementID_none"
  let ?nav = "nav_of 12 ElementID_none False"
  let ?c = "cmdr_with [edge_of 0 1, edge_of 1 2, edge_of 9 2]"
  let ?f1 = "(fsm_with CmdrState_Road (ElementID_name 11) ElementID_none)\<lparr>navstate := ?nav\<rparr>"
  have h1: "state ?f = CmdrState_Road" by (simp add: scenario_defs)
  have h2: "last_waypt ?nav \<noteq> current_way ?f" by (simp add: scenario_defs)
  have h3: "route ?c = edge_of 0 1 # [edge_of 1 2] @ edge_of 9 2 # []"
    by (simp add: scenario_defs)
  have a: "get_node_by_index (graph ?c) (startnode_index (edge_of 1 2)) = Some (node_of 1)"
    by (simp add: get_node_by_index_def scenario_defs)
  have b: "id' (node_of 1) \<noteq> last_waypt ?nav" by (simp add: scenario_defs)
  have h4: "\<forall>e\<in>set [edge_of 1 2].
              \<exists>n. get_node_by_index (graph ?c) (startnode_index e) = Some n
                   \<and> id' n \<noteq> last_waypt ?nav"
    using a b by simp
  have miss: "get_node_by_index (graph ?c) (startnode_index (edge_of 9 2)) = None"
    by (simp add: get_node_by_index_def scenario_defs)
  have ev: "current_event ops_replan_fails (?f\<lparr>navstate := ?nav\<rparr>) ?c
              = Inr (CmdrEvent_Fail, ?f1, cmdr_with [edge_of 9 2])"
    by (simp add: cycle_defs scenario_defs do_while.simps)
  from graph_lookup_failure_is_fatal[OF h1 h2 h3 h4 disjI1[OF miss], of ops_replan_fails]
  obtain f1 c1 where
    "current_event ops_replan_fails (?f\<lparr>navstate := ?nav\<rparr>) ?c = Inr (CmdrEvent_Fail, f1, c1)"
    "control ops_replan_fails ?f ?c ?nav =
               Inr (\<lparr>behavior = Behavior_Abort\<rparr>,
                    f1\<lparr>prev := CmdrState_Road, state := CmdrState_Done\<rparr>, c1)"
    by blast
  with ev have "control ops_replan_fails ?f ?c ?nav =
               Inr (\<lparr>behavior = Behavior_Abort\<rparr>,
                    ?f1\<lparr>prev := CmdrState_Road, state := CmdrState_Done\<rparr>,
                    cmdr_with [edge_of 9 2])"
    by simp
  note start_case = this
  let ?nav' = "nav_of 19 ElementID_none False"
  let ?c' = "cmdr_with [edge_of 0 1, edge_of 1 2, edge_of 2 9]"
  let ?f2 = "(fsm_with CmdrState_Road (ElementID_name 12) ElementID_none)\<lparr>navstate := ?nav'\<rparr>"
  have k2: "last_waypt ?nav' \<noteq> current_way ?f" by (simp add: scenario_defs)
  have k3: "route ?c' = edge_of 0 1 # [edge_of 1 2] @ edge_of 2 9 # []"
    by (simp add: scenario_defs)
  have k4: "\<forall>e\<in>set [edge_of 1 2].
              \<exists>n. get_node_by_index (graph ?c') (startnode_index e) = Some n
                   \<and> id' n \<noteq> last_waypt ?nav'"
    by (simp add: get_node_by_index_def scenario_defs)
  have k5: "[] = ([]::WayPointEdge list)
            \<and> (\<exists>n. get_node_by_index (graph ?c') (startnode_index (edge_of 2 9)) = Some n
                    \<and> id' n \<noteq> last_waypt ?nav')
            \<and> get_node_by_index (graph ?c') (endnode_index (edge_of 2 9)) = None"
    by (simp add: get_node_by_index_def scenario_defs)
  have ev': "current_event ops_replan_fails (?f\<lparr>navstate := ?nav'\<rparr>) ?c'
              = Inr (CmdrEvent_Fail, ?f2, cmdr_with [edge_of 2 9])"
    by (simp add: cycle_defs scenario_defs do_while.simps)
  from graph_lookup_failure_is_fatal[OF h1 k2 k3 k4 disjI2[OF k5], of ops_replan_fails]
  obtain f1 c1 where
    "current_event ops_replan_fails (?f\<lparr>navstate := ?nav'\<rparr>) ?c' = Inr (CmdrEvent_Fail, f1, c1)"
    "control ops_replan_fails ?f ?c' ?nav' =
               Inr (\<lparr>behavior = Behavior_Abort\<rparr>,
                    f1\<lparr>prev := CmdrState_Road, state := CmdrState_Done\<rparr>, c1)"
    by blast
  with ev' have "control ops_replan_fails ?f ?c' ?nav' =
               Inr (\<lparr>behavior = Behavior_Abort\<rparr>,
                    ?f2\<lparr>prev := CmdrState_Road, state := CmdrState_Done\<rparr>,
                    cmdr_with [edge_of 2 9])"
    by simp
  with h1 h2 h3 a b miss ev start_case show ?thesis by simp
qed

subsection \<open>The walk stays inside the route only from two edges on\<close>

lemma do_while_in_bounds:
  assumes "route c = front # e # rest"
  shows "\<exists>r. do_while f c g1 g2 = Inr r"
  using assms
proof (induction rest arbitrary: f c front e g1 g2)
  case Nil
  then show ?case
    by (subst do_while.simps) (simp add: at_def Let_def split: option.splits)
next
  case (Cons e' rest)
  show ?case
  proof (cases "get_node_by_index (graph c) (startnode_index e)")
    case None
    with Cons.prems show ?thesis by (subst do_while.simps) (simp add: at_def)
  next
    case (Some n)
    let ?c1 = "c\<lparr>route := e # e' # rest\<rparr>"
    let ?f1 = "f\<lparr>current_way := id' n\<rparr>"
    have "\<exists>r. do_while ?f1 ?c1 (if id' n = id' (goal c) then True else g1)
                  (if id' n = id' (goal2 c) then True else g2) = Inr r"
      by (intro Cons.IH[of ?c1 e e']) simp
    with Cons.prems Some show ?thesis
      by (subst do_while.simps) (simp add: at_def Let_def)
  qed
qed

lemma triple_ex: "\<exists>a b c. x = (a, b, c)"
  by (cases x) auto

lemma do_while_single_edge:
  assumes "route c = [front]"
  shows "do_while f c g1 g2 = Inl out_of_range"
  using assms by (subst do_while.simps) (simp add: at_def)

text \<open>
  C10. When the reported waypoint differs from \<open>current_way\<close> and the route holds
  exactly one edge, the loop body pops that edge and \<open>at(0)\<close> on the now empty route
  fails: \<open>current_event\<close> ends with \<open>out_of_range\<close>. With two or more edges
  \<open>current_event\<close> returns an event, and these single-edge cycles are the only ones
  in which it does not.
\<close>

theorem route_walk_in_bounds:
  "(length (route c) = 1 \<and> last_waypt (navstate f) \<noteq> current_way f \<longrightarrow>
      at (c\<lparr>route := tl (route c)\<rparr>) 0 = Inl out_of_range
      \<and> current_event ops f c = Inl out_of_range)
   \<and> (2 \<le> length (route c) \<longrightarrow> (\<exists>r. current_event ops f c = Inr r))
   \<and> ((\<exists>e. current_event ops f c = Inl e) \<longleftrightarrow>
        length (route c) = 1 \<and> last_waypt (navstate f) \<noteq> current_way f)"
proof -
  have one: "at (c\<lparr>route := tl (route c)\<rparr>) 0 = Inl out_of_range
             \<and> current_event ops f c = Inl out_of_range"
    if "length (route c) = 1" "last_waypt (navstate f) \<noteq> current_way f"
  proof -
    from that(1) obtain front where r: "route c = [front]"
      by (cases "route c") auto
    from do_while_single_edge[OF r] that(2) r show ?thesis
      by (simp add: current_event_def walk_through_plan_def at_def)
  qed
  have same: "\<exists>r. current_event ops f c = Inr r"
    if "\<not> last_waypt (navstate f) \<noteq> current_way f"
    using that
    by (auto simp: current_event_def walk_through_plan_def Let_def triple_ex split: prod.splits)
  have two: "\<exists>r. current_event ops f c = Inr r" if "2 \<le> length (route c)"
  proof (cases "last_waypt (navstate f) \<noteq> current_way f")
    case False
    then show ?thesis by (rule same)
  next
    case True
    from that obtain front e rest where r: "route c = front # e # rest"
      by (cases "route c"; cases "tl (route c)") auto
    from do_while_in_bounds[OF r] obtain w where "do_while f c False False = Inr w"
      by blast
    with True r show ?thesis
      by (auto simp: current_event_def walk_through_plan_def Let_def triple_ex
               split: sum.splits prod.splits option.splits)
  qed
  have zero: "\<exists>r. current_event ops f c = Inr r" if "length (route c) = 0"
    using that by (auto simp: current_event_def Let_def)
  have cases: "length (route c) = 0 \<or> length (route c) = 1 \<or> 2 \<le> length (route c)"
    by arith
  have iff: "(\<exists>e. current_event ops f c = Inl e) \<longleftrightarrow>
        length (route c) = 1 \<and> last_waypt (navstate f) \<noteq> current_way f"
    using one same two zero cases by (metis Inl_Inr_False)
  from one two iff show ?thesis by blast
qed

theorem route_walk_in_bounds_witness:
  "length (route (cmdr_with [edge_of 0 1])) = 1
   \<and> last_waypt (navstate ((fsm_with CmdrState_Road (ElementID_name 10) ElementID_none)
                             \<lparr>navstate := nav_of 11 ElementID_none False\<rparr>))
       \<noteq> current_way ((fsm_with CmdrState_Road (ElementID_name 10) ElementID_none)
                        \<lparr>navstate := nav_of 11 ElementID_none False\<rparr>)
   \<and> current_event ops_replan_fails
        ((fsm_with CmdrState_Road (ElementID_name 10) ElementID_none)
           \<lparr>navstate := nav_of 11 ElementID_none False\<rparr>) (cmdr_with [edge_of 0 1])
       = Inl out_of_range
   \<and> 2 \<le> length (route (cmdr_with [edge_of 0 1, edge_of 1 2]))
   \<and> (\<exists>r. current_event ops_replan_fails
              ((fsm_with CmdrState_Road (ElementID_name 10) ElementID_none)
                 \<lparr>navstate := nav_of 11 ElementID_none False\<rparr>)
              (cmdr_with [edge_of 0 1, edge_of 1 2]) = Inr r)"
proof -
  let ?f = "(fsm_with CmdrState_Road (ElementID_name 10) ElementID_none)
              \<lparr>navstate := nav_of 11 ElementID_none False\<rparr>"
  have h1: "length (route (cmdr_with [edge_of 0 1])) = 1" by (simp add: scenario_defs)
  have h2: "last_waypt (navstate ?f) \<noteq> current_way ?f" by (simp add: scenario_defs)
  have h3: "2 \<le> length (route (cmdr_with [edge_of 0 1, edge_of 1 2]))"
    by (simp add: scenario_defs)
  from route_walk_in_bounds[of "cmdr_with [edge_of 0 1]" ?f ops_replan_fails] h1 h2
  have one: "current_event ops_replan_fails ?f (cmdr_with [edge_of 0 1]) = Inl out_of_range"
    by blast
  from route_walk_in_bounds[of "cmdr_with [edge_of 0 1, edge_of 1 2]" ?f ops_replan_fails] h3
  have two: "\<exists>r. current_event ops_replan_fails ?f (cmdr_with [edge_of 0 1, edge_of 1 2]) = Inr r"
    by blast
  from h1 h2 h3 one two show ?thesis by blast
qed

end
